theory Spec2Isabelle
  imports Complex_Main
begin

section \<open>Python floats\<close>

text \<open>
  The pipeline computes on Python floats, the binary64 numbers of IEEE 754. A float is
  modelled as the real number it denotes, as one of the two infinities, or as the
  not-a-number value. The sum, the difference, the product and the quotient of two
  numbers are rounded to the nearest float: 53 significant bits, a tie going to the even
  significand, with gradual underflow below \<open>2 ^ (- 1022)\<close>; a rounded result of magnitude
  \<open>2 ^ 1024\<close> or more is the infinity of its sign. \<open>NaN\<close> propagates through arithmetic and
  every ordered comparison with it is false. The two zeros are one number: they compare
  equal, and a division of Python floats by either of them raises \<open>ZeroDivisionError\<close>,
  whatever the dividend.
\<close>

datatype pyfloat = Fin real | PInf | NInf | NaN

datatype py_error = ZeroDivisionError | OverflowError | ValueError

text \<open>Rounding a real number to an integer, a tie going to the even one.\<close>

definition round_half_even :: "real \<Rightarrow> int" where
  "round_half_even x =
     (let n = \<lfloor>x\<rfloor>; r = x - of_int n
      in if r < 1/2 then n else if r > 1/2 then n + 1 else if even n then n else n + 1)"

text \<open>
  Rounding a real number to binary64, the exponent range unbounded above: the number is
  rounded to a multiple of the unit in the last place of its binade, and of the lowest
  binade \<open>2 ^ (- 1022)\<close> below it.
\<close>

definition round_double :: "real \<Rightarrow> real" where
  "round_double x =
     (if x = 0 then 0
      else (let e = max \<lfloor>log 2 \<bar>x\<bar>\<rfloor> (- 1022);
                ulp = 2 powr (of_int e - 52)
            in of_int (round_half_even (x / ulp)) * ulp))"

text \<open>The float of a real result: rounded, and an infinity on overflow.\<close>

definition fl :: "real \<Rightarrow> pyfloat" where
  "fl x =
     (let r = round_double x
      in if 2 ^ 1024 \<le> r then PInf else if r \<le> - (2 ^ 1024) then NInf else Fin r)"

definition inf_of :: "bool \<Rightarrow> pyfloat" where
  "inf_of positive = (if positive then PInf else NInf)"

definition py_abs :: "pyfloat \<Rightarrow> pyfloat" where
  "py_abs x = (case x of Fin a \<Rightarrow> Fin \<bar>a\<bar> | PInf \<Rightarrow> PInf | NInf \<Rightarrow> PInf | NaN \<Rightarrow> NaN)"

fun py_add :: "pyfloat \<Rightarrow> pyfloat \<Rightarrow> pyfloat" where
  "py_add (Fin a) (Fin b) = fl (a + b)"
| "py_add NaN y = NaN"
| "py_add x NaN = NaN"
| "py_add PInf NInf = NaN"
| "py_add NInf PInf = NaN"
| "py_add PInf y = PInf"
| "py_add NInf y = NInf"
| "py_add (Fin a) PInf = PInf"
| "py_add (Fin a) NInf = NInf"

fun py_sub :: "pyfloat \<Rightarrow> pyfloat \<Rightarrow> pyfloat" where
  "py_sub (Fin a) (Fin b) = fl (a - b)"
| "py_sub NaN y = NaN"
| "py_sub x NaN = NaN"
| "py_sub PInf PInf = NaN"
| "py_sub NInf NInf = NaN"
| "py_sub PInf y = PInf"
| "py_sub NInf y = NInf"
| "py_sub (Fin a) PInf = NInf"
| "py_sub (Fin a) NInf = PInf"

fun py_mul :: "pyfloat \<Rightarrow> pyfloat \<Rightarrow> pyfloat" where
  "py_mul (Fin a) (Fin b) = fl (a * b)"
| "py_mul NaN y = NaN"
| "py_mul x NaN = NaN"
| "py_mul PInf (Fin b) = (if b = 0 then NaN else inf_of (0 < b))"
| "py_mul NInf (Fin b) = (if b = 0 then NaN else inf_of (b < 0))"
| "py_mul (Fin a) PInf = (if a = 0 then NaN else inf_of (0 < a))"
| "py_mul (Fin a) NInf = (if a = 0 then NaN else inf_of (a < 0))"
| "py_mul PInf PInf = PInf"
| "py_mul PInf NInf = NInf"
| "py_mul NInf PInf = NInf"
| "py_mul NInf NInf = PInf"

text \<open>The quotient of two floats by a divisor that is not zero.\<close>

fun float_div :: "pyfloat \<Rightarrow> pyfloat \<Rightarrow> pyfloat" where
  "float_div (Fin a) (Fin b) = fl (a / b)"
| "float_div NaN y = NaN"
| "float_div x NaN = NaN"
| "float_div PInf (Fin b) = inf_of (0 < b)"
| "float_div NInf (Fin b) = inf_of (b < 0)"
| "float_div (Fin a) PInf = Fin 0"
| "float_div (Fin a) NInf = Fin 0"
| "float_div PInf PInf = NaN"
| "float_div PInf NInf = NaN"
| "float_div NInf PInf = NaN"
| "float_div NInf NInf = NaN"

definition py_truediv :: "pyfloat \<Rightarrow> pyfloat \<Rightarrow> py_error + pyfloat" where
  "py_truediv x y =
     (if y = Fin 0 then Inl ZeroDivisionError else Inr (float_div x y))"

fun py_lt :: "pyfloat \<Rightarrow> pyfloat \<Rightarrow> bool" where
  "py_lt (Fin a) (Fin b) = (a < b)"
| "py_lt NaN y = False"
| "py_lt x NaN = False"
| "py_lt x NInf = False"
| "py_lt PInf y = False"
| "py_lt NInf y = True"
| "py_lt (Fin a) PInf = True"

fun py_le :: "pyfloat \<Rightarrow> pyfloat \<Rightarrow> bool" where
  "py_le (Fin a) (Fin b) = (a \<le> b)"
| "py_le NaN y = False"
| "py_le x NaN = False"
| "py_le NInf y = True"
| "py_le x PInf = True"
| "py_le PInf y = False"
| "py_le (Fin a) NInf = False"

definition py_gt :: "pyfloat \<Rightarrow> pyfloat \<Rightarrow> bool" where
  "py_gt x y = py_lt y x"

definition py_ge :: "pyfloat \<Rightarrow> pyfloat \<Rightarrow> bool" where
  "py_ge x y = py_le y x"

text \<open>
  The builtin \<open>min(a, b)\<close> keeps its first argument unless the second compares smaller, so
  a \<open>NaN\<close> first argument is returned as it is. \<open>np.clip(x, lo, hi)\<close> is
  \<open>minimum(maximum(x, lo), hi)\<close> and propagates \<open>NaN\<close>.
\<close>

definition py_min :: "pyfloat \<Rightarrow> pyfloat \<Rightarrow> pyfloat" where
  "py_min a b = (if py_lt b a then b else a)"

definition np_clip :: "pyfloat \<Rightarrow> real \<Rightarrow> real \<Rightarrow> pyfloat" where
  "np_clip x lo hi =
     (case x of Fin a \<Rightarrow> Fin (min (max a lo) hi) | PInf \<Rightarrow> Fin hi
      | NInf \<Rightarrow> Fin (min lo hi) | NaN \<Rightarrow> NaN)"

text \<open>The slice \<open>xs[i:]\<close>: a negative index counts from the end and is clipped at the start.\<close>

definition py_slice_from :: "int \<Rightarrow> 'a list \<Rightarrow> 'a list" where
  "py_slice_from i xs =
     (if i < 0 then drop (nat (max 0 (int (length xs) + i))) xs else drop (nat i) xs)"

text \<open>
  A float written by its significand and its binary exponent: \<open>d64 m n\<close> is
  \<open>m / 2\<^sup>n\<close>. A literal of the source denotes the float nearest to its decimal value.
\<close>

definition d64 :: "int \<Rightarrow> nat \<Rightarrow> real" where
  "d64 m n = of_int m / 2 ^ n"


section \<open>Configuration (config/settings.py)\<close>

text \<open>
  The dataclass \<open>RiskThresholds\<close>. Its fields are configured numbers; the shock list is
  optional at construction and is filled in by \<open>__post_init__\<close>.
\<close>

record RiskThresholds =
  delta_change_threshold :: real
  gamma_change_threshold :: real
  theta_change_threshold :: real
  vega_change_threshold :: real
  risk_score_min :: real
  risk_score_max :: real
  stable_max :: real
  sensitive_max :: real
  shock_scenarios :: "real list"

text \<open>
  Construction: the generated \<open>__init__\<close> stores the arguments and \<open>__post_init__\<close> replaces
  an absent shock list by the default one. Neither of them inspects a value, and nothing
  is raised: the result is always the constructed object.
\<close>

definition RiskThresholds_init ::
  "real \<Rightarrow> real \<Rightarrow> real \<Rightarrow> real \<Rightarrow> real \<Rightarrow> real \<Rightarrow> real \<Rightarrow> real \<Rightarrow> real list option
     \<Rightarrow> py_error + RiskThresholds" where
  "RiskThresholds_init dt gt tt vt smin smax stab sens shocks =
     Inr \<lparr> delta_change_threshold = dt, gamma_change_threshold = gt,
           theta_change_threshold = tt, vega_change_threshold = vt,
           risk_score_min = smin, risk_score_max = smax,
           stable_max = stab, sensitive_max = sens,
           shock_scenarios =
             (case shocks of None \<Rightarrow> [1/100, 5/100, - (1/100), - (5/100)] | Some l \<Rightarrow> l) \<rparr>"

definition default_thresholds :: "py_error + RiskThresholds" where
  "default_thresholds =
     RiskThresholds_init (5/100) (10/100) (5/100) (10/100) 0 100 30 65 None"


section \<open>Risk event detection (pathway_pipeline/events.py)\<close>

text \<open>
  A metrics dictionary, restricted to the keys the detector and the scorer read;
  \<open>None\<close> is an absent key, which \<open>dict.get\<close> replaces by its default.
\<close>

record metrics =
  k_timestamp :: "string option"
  k_delta :: "pyfloat option"
  k_gamma :: "pyfloat option"
  k_theta :: "pyfloat option"
  k_vega :: "pyfloat option"
  k_risk_regime :: "string option"

definition dict_get :: "'a option \<Rightarrow> 'a \<Rightarrow> 'a" where
  "dict_get entry dflt = (case entry of None \<Rightarrow> dflt | Some v \<Rightarrow> v)"

record RiskEvent =
  timestamp :: string
  event_type :: string
  severity :: string
  description :: string
  old_value :: pyfloat
  new_value :: pyfloat
  change_pct :: pyfloat

record RiskEventDetector =
  previous_metrics :: "metrics option"
  event_history :: "RiskEvent list"
  max_history_size :: int

definition RiskEventDetector_init :: RiskEventDetector where
  "RiskEventDetector_init =
     \<lparr> previous_metrics = None, event_history = [], max_history_size = 100 \<rparr>"

text \<open>Sequencing: an exception raised by a step ends the computation.\<close>

definition and_then :: "py_error + 'a \<Rightarrow> ('a \<Rightarrow> py_error + 'b) \<Rightarrow> py_error + 'b" where
  "and_then r k = (case r of Inl e \<Rightarrow> Inl e | Inr v \<Rightarrow> k v)"

definition significant_change :: "pyfloat \<Rightarrow> pyfloat \<Rightarrow> real \<Rightarrow> py_error + bool" where
  "significant_change old new threshold =
     (if py_lt (py_abs old) (Fin (1 / 10 ^ 10)) then Inr (py_gt (py_abs new) (Fin threshold))
      else and_then (py_truediv (py_sub new old) old) (\<lambda>q.
             Inr (py_ge (py_abs q) (Fin threshold))))"

definition calc_change_pct :: "pyfloat \<Rightarrow> pyfloat \<Rightarrow> py_error + pyfloat" where
  "calc_change_pct old new =
     (if py_lt (py_abs old) (Fin (1 / 10 ^ 10))
      then Inr (if py_lt (py_abs new) (Fin (1 / 10 ^ 10)) then Fin 0 else Fin 100)
      else and_then (py_truediv (py_sub new old) old) (\<lambda>q.
             Inr (py_mul q (Fin 100))))"

definition classify_severity :: "pyfloat \<Rightarrow> pyfloat \<Rightarrow> real \<Rightarrow> py_error + string" where
  "classify_severity old new threshold =
     (if py_lt (py_abs old) (Fin (1 / 10 ^ 10)) then Inr ''MEDIUM''
      else and_then (py_truediv (py_sub new old) old) (\<lambda>q.
             Inr (if py_ge (py_abs q) (py_mul (Fin threshold) (Fin 3)) then ''HIGH''
                  else if py_ge (py_abs q) (py_mul (Fin threshold) (Fin (3/2))) then ''MEDIUM''
                  else ''LOW'')))"

definition regime_order :: "string \<Rightarrow> int option" where
  "regime_order r =
     (if r = ''STABLE'' then Some 0
      else if r = ''SENSITIVE'' then Some 1
      else if r = ''FRAGILE'' then Some 2
      else None)"

definition regime_change_severity :: "string \<Rightarrow> string \<Rightarrow> string" where
  "regime_change_severity old_regime new_regime =
     (let old_level = dict_get (regime_order old_regime) 1;
          new_level = dict_get (regime_order new_regime) 1;
          diff = \<bar>new_level - old_level\<bar>
      in if diff \<ge> 2 then ''HIGH'' else if diff = 1 then ''MEDIUM'' else ''LOW'')"

text \<open>
  One of the four blocks ``Check ... change'' of \<open>detect_events\<close>: they differ in the
  dictionary key, the threshold, the event type, the name and the number of decimals in
  the description. The text of a float with a given number of decimals (Python's format
  specification \<open>.4f\<close>, \<open>.6f\<close>) is the parameter \<open>fmt\<close>.
\<close>

definition check_change ::
  "(nat \<Rightarrow> pyfloat \<Rightarrow> string) \<Rightarrow> string \<Rightarrow> string \<Rightarrow> string \<Rightarrow> nat \<Rightarrow> pyfloat \<Rightarrow> pyfloat \<Rightarrow> real
     \<Rightarrow> py_error + RiskEvent list" where
  "check_change fmt ts etype name decimals old new threshold =
     and_then (significant_change old new threshold) (\<lambda>significant.
       if significant
       then and_then (classify_severity old new threshold) (\<lambda>sev.
            and_then (calc_change_pct old new) (\<lambda>pct.
              Inr [\<lparr> timestamp = ts, event_type = etype, severity = sev,
                     description = name @ '' changed from '' @ fmt decimals old
                                   @ '' to '' @ fmt decimals new,
                     old_value = old, new_value = new, change_pct = pct \<rparr>]))
       else Inr [])"

definition check_regime :: "string \<Rightarrow> string \<Rightarrow> string \<Rightarrow> RiskEvent list" where
  "check_regime ts old_regime new_regime =
     (if old_regime \<noteq> new_regime
      then [\<lparr> timestamp = ts, event_type = ''REGIME_CHANGE'',
              severity = regime_change_severity old_regime new_regime,
              description = ''Risk regime transitioned from '' @ old_regime
                            @ '' to '' @ new_regime,
              old_value = Fin 0, new_value = Fin 0, change_pct = Fin 0 \<rparr>]
      else [])"

text \<open>
  What one call of \<open>detect_events\<close> does: the list it returns, the detector afterwards, and
  the lines it writes to a log. The module imports no logging facility and calls neither
  a logger nor \<open>print\<close>, so the last component is empty on every path.
\<close>

record outcome =
  returned :: "RiskEvent list"
  detector :: RiskEventDetector
  logged :: "string list"

text \<open>
  \<open>detect_events\<close>. The thresholds are read from the global configuration and the clock
  from \<open>datetime.now().isoformat()\<close>; both are parameters here (\<open>thresholds\<close>, \<open>now\<close>).
\<close>

definition detect_events ::
  "(nat \<Rightarrow> pyfloat \<Rightarrow> string) \<Rightarrow> RiskThresholds \<Rightarrow> string \<Rightarrow> RiskEventDetector \<Rightarrow> metrics
     \<Rightarrow> py_error + outcome" where
  "detect_events fmt thresholds now self current_metrics =
     (case previous_metrics self of
        None \<Rightarrow>
          Inr \<lparr> returned = [],
                detector = self\<lparr>previous_metrics := Some current_metrics\<rparr>,
                logged = [] \<rparr>
      | Some prev \<Rightarrow>
          (let ts = dict_get (k_timestamp current_metrics) now in
           and_then (check_change fmt ts ''DELTA_CHANGE'' ''Delta'' 4
                       (dict_get (k_delta prev) (Fin 0))
                       (dict_get (k_delta current_metrics) (Fin 0))
                       (delta_change_threshold thresholds)) (\<lambda>ev_delta.
           and_then (check_change fmt ts ''GAMMA_CHANGE'' ''Gamma'' 6
                       (dict_get (k_gamma prev) (Fin 0))
                       (dict_get (k_gamma current_metrics) (Fin 0))
                       (gamma_change_threshold thresholds)) (\<lambda>ev_gamma.
           and_then (check_change fmt ts ''THETA_CHANGE'' ''Theta'' 4
                       (dict_get (k_theta prev) (Fin 0))
                       (dict_get (k_theta current_metrics) (Fin 0))
                       (theta_change_threshold thresholds)) (\<lambda>ev_theta.
           and_then (check_change fmt ts ''VEGA_CHANGE'' ''Vega'' 4
                       (dict_get (k_vega prev) (Fin 0))
                       (dict_get (k_vega current_metrics) (Fin 0))
                       (vega_change_threshold thresholds)) (\<lambda>ev_vega.
             (let events = ev_delta @ ev_gamma @ ev_theta @ ev_vega
                    @ check_regime ts (dict_get (k_risk_regime prev) ''UNKNOWN'')
                        (dict_get (k_risk_regime current_metrics) ''UNKNOWN'');
                  history = event_history self @ events;
                  history' = (if int (length history) > max_history_size self
                              then py_slice_from (- max_history_size self) history
                              else history)
              in Inr \<lparr> returned = events,
                       detector = self\<lparr>previous_metrics := Some current_metrics,
                                       event_history := history'\<rparr>,
                       logged = [] \<rparr>)))))))"


text \<open>
  The literal \<open>1e-10\<close> of the three functions above is taken as the decimal number: no
  float lies between the two, so they separate the floats alike.

  The decision of \<open>_significant_change\<close> as a truth value: the function never reaches
  its division with a zero divisor, so it always returns, and this says what.
\<close>

definition changed :: "pyfloat \<Rightarrow> pyfloat \<Rightarrow> real \<Rightarrow> bool" where
  "changed old new threshold = (significant_change old new threshold = Inr True)"

text \<open>
  The rule of the specification for one field, on numbers and in exact arithmetic: a
  relative change of at least the threshold when the old value is not negligible, and a
  new value beyond the threshold when it is.
\<close>

definition threshold_rule :: "real \<Rightarrow> real \<Rightarrow> real \<Rightarrow> bool" where
  "threshold_rule old new threshold =
     ((\<bar>old\<bar> \<ge> 1 / 10 ^ 10 \<longrightarrow> \<bar>(new - old) / old\<bar> \<ge> threshold) \<and>
      (\<bar>old\<bar> < 1 / 10 ^ 10 \<longrightarrow> \<bar>new\<bar> > threshold))"

text \<open>
  The same rule in float arithmetic: the difference is rounded, its quotient by the old
  value is rounded, and the magnitude of the result is compared with the threshold. A
  difference or a quotient that overflows is infinite and reaches every threshold.
\<close>

definition float_rule :: "real \<Rightarrow> real \<Rightarrow> real \<Rightarrow> bool" where
  "float_rule old new threshold =
     ((\<bar>old\<bar> \<ge> 1 / 10 ^ 10 \<longrightarrow>
         (let s = round_double (new - old); q = round_double (s / old)
          in 2 ^ 1024 \<le> \<bar>s\<bar> \<or> 2 ^ 1024 \<le> \<bar>q\<bar> \<or> threshold \<le> \<bar>q\<bar>)) \<and>
      (\<bar>old\<bar> < 1 / 10 ^ 10 \<longrightarrow> \<bar>new\<bar> > threshold))"

definition emitted :: "string \<Rightarrow> RiskEvent list \<Rightarrow> bool" where
  "emitted etype events = (\<exists>e \<in> set events. event_type e = etype)"


section \<open>Risk score and regime (pathway_pipeline/risk.py)\<close>

text \<open>
  \<open>compute_risk_score\<close>. The weights are the floats of the literals \<open>0.25\<close>, \<open>0.35\<close> and
  \<open>0.20\<close>; the scale factors and the cap are integers, which are floats as they are.
\<close>

definition compute_risk_score :: "metrics \<Rightarrow> pyfloat" where
  "compute_risk_score greeks =
     (let d = py_abs (dict_get (k_delta greeks) (Fin 0));
          g = py_abs (dict_get (k_gamma greeks) (Fin 0));
          t = py_abs (dict_get (k_theta greeks) (Fin 0));
          v = py_abs (dict_get (k_vega greeks) (Fin 0));
          w_delta = Fin (round_double (25/100));
          w_gamma = Fin (round_double (35/100));
          w_theta = Fin (round_double (20/100));
          w_vega = Fin (round_double (20/100));
          delta_score = py_min (py_mul d (Fin 100)) (Fin 100);
          gamma_score = py_min (py_mul g (Fin 1000)) (Fin 100);
          theta_score = py_min (py_mul t (Fin 10)) (Fin 100);
          vega_score = py_min (py_mul v (Fin 5)) (Fin 100);
          risk_score = py_add (py_add (py_add (py_mul w_delta delta_score)
                                              (py_mul w_gamma gamma_score))
                                      (py_mul w_theta theta_score))
                              (py_mul w_vega vega_score)
      in np_clip risk_score 0 100)"

text \<open>The score as the specification writes it, on numbers and in exact arithmetic.\<close>

definition clamp :: "real \<Rightarrow> real \<Rightarrow> real \<Rightarrow> real" where
  "clamp x lo hi = max lo (min x hi)"

definition score_spec :: "real \<Rightarrow> real \<Rightarrow> real \<Rightarrow> real \<Rightarrow> real" where
  "score_spec d g t v =
     clamp (25/100 * min (\<bar>d\<bar> * 100) 100 + 35/100 * min (\<bar>g\<bar> * 1000) 100
            + 20/100 * min (\<bar>t\<bar> * 10) 100 + 20/100 * min (\<bar>v\<bar> * 5) 100) 0 100"

text \<open>
  The same score in float arithmetic: the weights are rounded literals, and every
  product and every sum is rounded, the sum being taken from left to right.
\<close>

definition score_float :: "real \<Rightarrow> real \<Rightarrow> real \<Rightarrow> real \<Rightarrow> real" where
  "score_float d g t v =
     clamp
       (round_double
          (round_double
             (round_double
                (round_double (round_double (25/100) * min (round_double (\<bar>d\<bar> * 100)) 100)
                 + round_double (round_double (35/100) * min (round_double (\<bar>g\<bar> * 1000)) 100))
              + round_double (round_double (20/100) * min (round_double (\<bar>t\<bar> * 10)) 100))
           + round_double (round_double (20/100) * min (round_double (\<bar>v\<bar> * 5)) 100)))
       0 100"

text \<open>\<open>determine_risk_regime\<close>; the cutoffs are read from the global configuration.\<close>

definition determine_risk_regime :: "RiskThresholds \<Rightarrow> pyfloat \<Rightarrow> string" where
  "determine_risk_regime thresholds risk_score =
     (if py_le risk_score (Fin (stable_max thresholds)) then ''STABLE''
      else if py_le risk_score (Fin (sensitive_max thresholds)) then ''SENSITIVE''
      else ''FRAGILE'')"

definition valid_cutoffs :: "RiskThresholds \<Rightarrow> bool" where
  "valid_cutoffs thresholds =
     (0 \<le> stable_max thresholds \<and> stable_max thresholds < sensitive_max thresholds
      \<and> sensitive_max thresholds \<le> 100)"


section \<open>Shock scenarios (pathway_pipeline/risk.py, pathway_pipeline/greeks.py)\<close>











section \<open>Sample inputs\<close>

text \<open>A snapshot with every key present, a warm detector, and the default thresholds.\<close>

definition snapshot ::
  "string \<Rightarrow> pyfloat \<Rightarrow> pyfloat \<Rightarrow> pyfloat \<Rightarrow> pyfloat \<Rightarrow> string \<Rightarrow> metrics" where
  "snapshot ts d g t v regime =
     \<lparr> k_timestamp = Some ts, k_delta = Some d, k_gamma = Some g, k_theta = Some t,
       k_vega = Some v, k_risk_regime = Some regime \<rparr>"

definition warm_detector :: "metrics \<Rightarrow> RiskEventDetector" where
  "warm_detector prev = RiskEventDetector_init\<lparr>previous_metrics := Some prev\<rparr>"

definition plain_fmt :: "nat \<Rightarrow> pyfloat \<Rightarrow> string" where
  "plain_fmt decimals x =
     (case x of Fin a \<Rightarrow> ''number'' | PInf \<Rightarrow> ''inf'' | NInf \<Rightarrow> ''-inf'' | NaN \<Rightarrow> ''nan'')"

definition settings :: RiskThresholds where
  "settings = projr default_thresholds"

text \<open>
  The floats of the decimal literals \<open>0.05\<close> and \<open>0.10\<close>, and the default thresholds with
  these floats for the four change thresholds.
\<close>

definition float_0_05 :: real where
  "float_0_05 = d64 7205759403792794 57"

definition float_0_10 :: real where
  "float_0_10 = d64 7205759403792794 56"

definition float_settings :: RiskThresholds where
  "float_settings =
     projr (RiskThresholds_init float_0_05 float_0_10 float_0_05 float_0_10 0 100 30 65 None)"


text \<open>
  Two shock lists: the floats of the default fractions \<open>0.01\<close>, \<open>0.05\<close>, \<open>-0.01\<close> and
  \<open>-0.05\<close>, and the floats of \<open>0.01\<close> and \<open>0.015\<close>. The kernel \<open>price_probe\<close> returns the
  price it is called with.
\<close>

definition float_0_01 :: real where
  "float_0_01 = d64 5764607523034235 59"

definition float_0_015 :: real where
  "float_0_015 = d64 8646911284551352 59"

definition default_shocks :: RiskThresholds where
  "default_shocks =
     projr (RiskThresholds_init float_0_05 float_0_10 float_0_05 float_0_10 0 100 30 65
              (Some [float_0_01, float_0_05, - float_0_01, - float_0_05]))"

definition close_shocks :: RiskThresholds where
  "close_shocks =
     projr (RiskThresholds_init float_0_05 float_0_10 float_0_05 float_0_10 0 100 30 65
              (Some [float_0_01, float_0_015]))"



section \<open>Facts about rounding\<close>

lemma round_half_even_eqI:
  assumes "\<bar>y - of_int m\<bar> < 1/2"
  shows "round_half_even y = m"
proof (cases "of_int m \<le> y")
  case True
  with assms have "\<lfloor>y\<rfloor> = m" by (intro floor_unique) auto
  with assms True show ?thesis by (simp add: round_half_even_def Let_def)
next
  case False
  with assms have "\<lfloor>y\<rfloor> = m - 1" by (intro floor_unique) auto
  with assms False show ?thesis by (simp add: round_half_even_def Let_def)
qed

lemma round_half_even_le:
  assumes "y \<le> of_int N"
  shows "round_half_even y \<le> N"
proof (cases "y = of_int N")
  case True
  then show ?thesis by (simp add: round_half_even_def Let_def)
next
  case False
  with assms have "y < of_int N" by simp
  then have "\<lfloor>y\<rfloor> < N" by (simp add: floor_less_iff)
  then show ?thesis by (simp add: round_half_even_def Let_def)
qed

lemma round_half_even_ge:
  assumes "of_int N \<le> y"
  shows "N \<le> round_half_even y"
proof -
  from assms have "N \<le> \<lfloor>y\<rfloor>" by (simp add: le_floor_iff)
  then show ?thesis by (simp add: round_half_even_def Let_def)
qed

lemma round_double_0 [simp]: "round_double 0 = 0"
  by (simp add: round_double_def)

text \<open>
  The float of a number in a given binade: the nearest multiple of the unit in the last
  place, when the number is not half way between two of them.
\<close>

lemma round_double_eqI:
  fixes m :: int and n :: nat
  assumes n: "n \<le> 1074"
    and lo: "2 ^ 52 \<le> \<bar>x\<bar> * 2 ^ n" and hi: "\<bar>x\<bar> * 2 ^ n < 2 ^ 53"
    and m: "\<bar>x * 2 ^ n - of_int m\<bar> < 1/2"
  shows "round_double x = d64 m n"
proof -
  have x0: "x \<noteq> 0" using lo by auto
  then have xp: "0 < \<bar>x\<bar>" by simp
  have p: "(2::real) powr (52 - real n) = 2 ^ 52 / 2 ^ n"
    by (simp add: powr_diff powr_realpow)
  have p': "(2::real) powr (53 - real n) = 2 ^ 53 / 2 ^ n"
    by (simp add: powr_diff powr_realpow)
  have "2 powr (52 - real n) \<le> \<bar>x\<bar>"
    unfolding p using lo by (simp add: field_simps)
  then have a: "52 - real n \<le> log 2 \<bar>x\<bar>"
    using xp by (simp add: le_log_iff)
  have "\<bar>x\<bar> < 2 powr (53 - real n)"
    unfolding p' using hi by (simp add: field_simps)
  then have b: "log 2 \<bar>x\<bar> < 53 - real n"
    using xp by (simp add: log_less_iff)
  have fl: "\<lfloor>log 2 \<bar>x\<bar>\<rfloor> = 52 - int n"
    using a b by (intro floor_unique) auto
  have mx: "max (52 - int n) (- 1022) = 52 - int n" using n by simp
  have u: "(2::real) powr (- real n) = 1 / 2 ^ n"
    by (simp add: powr_minus powr_realpow inverse_eq_divide)
  have "round_half_even (x / (1 / 2 ^ n)) = m"
    using m by (intro round_half_even_eqI) simp
  then show ?thesis
    using x0 by (simp add: round_double_def fl mx u Let_def d64_def)
qed

text \<open>Rounding keeps the sign, and does not cross a power of two.\<close>

lemma round_double_nonneg:
  assumes "0 \<le> x"
  shows "0 \<le> round_double x"
proof (cases "x = 0")
  case True
  then show ?thesis by simp
next
  case False
  define u :: real where "u = 2 powr (of_int (max \<lfloor>log 2 \<bar>x\<bar>\<rfloor> (- 1022)) - 52)"
  have u: "0 < u" by (simp add: u_def)
  have "of_int 0 \<le> x / u" using assms u by simp
  then have "0 \<le> round_half_even (x / u)" by (rule round_half_even_ge)
  then have "0 \<le> of_int (round_half_even (x / u)) * u" using u by simp
  then show ?thesis using False by (simp add: round_double_def Let_def u_def)
qed

lemma round_double_le_pow2:
  fixes k :: nat
  assumes "\<bar>x\<bar> \<le> 2 ^ k"
  shows "\<bar>round_double x\<bar> \<le> 2 ^ k"
proof (cases "x = 0")
  case True
  then show ?thesis by simp
next
  case False
  define e where "e = max \<lfloor>log 2 \<bar>x\<bar>\<rfloor> (- 1022)"
  define u :: real where "u = 2 powr (of_int e - 52)"
  have u: "0 < u" by (simp add: u_def)
  have "log 2 \<bar>x\<bar> \<le> real k"
    using False assms by (simp add: log_le_iff powr_realpow)
  then have "\<lfloor>log 2 \<bar>x\<bar>\<rfloor> \<le> int k" by (simp add: floor_le_iff)
  then have ek: "e \<le> int k" by (simp add: e_def)
  define j where "j = nat (int k + 52 - e)"
  have j: "int j = int k + 52 - e" using ek by (simp add: j_def)
  have "2 powr (real j) * u = 2 powr (real j + (of_int e - 52))"
    by (simp add: u_def powr_add)
  also have "real j + (of_int e - 52) = real k"
    using j by linarith
  finally have N: "of_int (2 ^ j) * u = 2 ^ k"
    by (simp add: powr_realpow)
  then have Nu: "of_int (2 ^ j) = 2 ^ k / u" using u by (simp add: field_simps)
  have up: "x / u \<le> of_int (2 ^ j)" and dn: "of_int (- (2 ^ j)) \<le> x / u"
    unfolding of_int_minus Nu using assms u by (simp_all add: field_simps abs_le_iff)
  have "round_half_even (x / u) \<le> 2 ^ j"
    using up by (rule round_half_even_le)
  moreover have "- (2 ^ j) \<le> round_half_even (x / u)"
    using dn by (rule round_half_even_ge)
  ultimately have "\<bar>round_half_even (x / u)\<bar> \<le> 2 ^ j" by simp
  then have A: "\<bar>real_of_int (round_half_even (x / u))\<bar> \<le> 2 ^ j"
    by (metis of_int_abs of_int_le_iff of_int_numeral of_int_power)
  have "\<bar>real_of_int (round_half_even (x / u)) * u\<bar>
          = \<bar>real_of_int (round_half_even (x / u))\<bar> * u"
    using u by (simp add: abs_mult)
  also have "\<dots> \<le> 2 ^ j * u"
    using A u by (intro mult_right_mono) simp_all
  also have "\<dots> = 2 ^ k" using N by simp
  finally have "\<bar>real_of_int (round_half_even (x / u)) * u\<bar> \<le> 2 ^ k" .
  then show ?thesis using False by (simp add: round_double_def Let_def u_def e_def)
qed

lemma fl_0 [simp]: "fl 0 = Fin 0"
  by (simp add: fl_def)

lemma fl_small:
  assumes "\<bar>x\<bar> \<le> 2 ^ 10"
  shows "fl x = Fin (round_double x)"
proof -
  have "\<bar>round_double x\<bar> \<le> 2 ^ 10" using assms by (rule round_double_le_pow2)
  moreover have "(2::real) ^ 10 < 2 ^ 1024" by simp
  ultimately have "\<bar>round_double x\<bar> < 2 ^ 1024" by linarith
  then show ?thesis by (simp add: fl_def Let_def abs_less_iff)
qed



section \<open>Facts about Python floats\<close>

lemma py_lt_simps [simp]:
  "py_lt NaN y = False" "py_lt x NaN = False"
  by (cases x; simp)+

lemma py_le_simps [simp]:
  "py_le NaN y = False" "py_le x NaN = False"
  by (cases x; simp)+

lemma py_abs_simps [simp]:
  "py_abs (Fin a) = Fin \<bar>a\<bar>" "py_abs NaN = NaN" "py_abs PInf = PInf" "py_abs NInf = PInf"
  by (simp_all add: py_abs_def)

lemma py_sub_simps [simp]: "py_sub NaN y = NaN" "py_sub x NaN = NaN"
  by (cases x; simp)+

lemma py_mul_simps [simp]: "py_mul NaN y = NaN" "py_mul x NaN = NaN"
  by (cases x; simp)+

lemma py_add_simps [simp]: "py_add NaN y = NaN" "py_add x NaN = NaN"
  by (cases x; simp)+

lemma float_div_simps [simp]: "float_div NaN y = NaN" "float_div x NaN = NaN"
  by (cases x; simp)+

lemma py_truediv_simps [simp]:
  "y \<noteq> Fin 0 \<Longrightarrow> py_truediv x y = Inr (float_div x y)"
  "py_truediv x (Fin 0) = Inl ZeroDivisionError"
  by (simp_all add: py_truediv_def)

lemma and_then_simps [simp]: "and_then (Inr v) k = k v" "and_then (Inl e) k = Inl e"
  by (simp_all add: and_then_def)

lemma dict_get_simps [simp]: "dict_get None d = d" "dict_get (Some v) d = v"
  by (simp_all add: dict_get_def)


section \<open>The detector never divides by zero\<close>

lemma not_negligible_nonzero:
  "\<not> py_lt (py_abs old) (Fin (1 / 10 ^ 10)) \<Longrightarrow> old \<noteq> Fin 0"
  by auto

lemma significant_change_total: "\<exists>b. significant_change old new thr = Inr b"
  by (simp add: significant_change_def not_negligible_nonzero)

lemma significant_change_eq: "significant_change old new thr = Inr (changed old new thr)"
  using significant_change_total[of old new thr] by (auto simp: changed_def)

lemma classify_severity_total: "\<exists>s. classify_severity old new thr = Inr s"
  by (simp add: classify_severity_def not_negligible_nonzero)

lemma calc_change_pct_total: "\<exists>p. calc_change_pct old new = Inr p"
  by (simp add: calc_change_pct_def not_negligible_nonzero)

lemma classify_severity_negligible:
  "\<bar>a\<bar> < 1 / 10 ^ 10 \<Longrightarrow> classify_severity (Fin a) new thr = Inr ''MEDIUM''"
  by (simp add: classify_severity_def)

text \<open>The events of one block: none, or one event of the block's type.\<close>

lemma check_change_cases:
  "\<exists>evs. check_change fmt ts etype name d old new thr = Inr evs \<and>
     (if changed old new thr
      then \<exists>sev pct. classify_severity old new thr = Inr sev \<and>
             evs = [\<lparr> timestamp = ts, event_type = etype, severity = sev,
                      description = name @ '' changed from '' @ fmt d old
                                    @ '' to '' @ fmt d new,
                      old_value = old, new_value = new, change_pct = pct \<rparr>]
      else evs = [])"
  using classify_severity_total[of old new thr] calc_change_pct_total[of old new]
  by (auto simp: check_change_def significant_change_eq)

lemma check_change_emitted:
  assumes "check_change fmt ts etype name d old new thr = Inr evs"
  shows "emitted ety evs \<longleftrightarrow> (ety = etype \<and> changed old new thr)"
  using check_change_cases[of fmt ts etype name d old new thr] assms
  by (auto simp: emitted_def split: if_splits)

lemma check_change_severity:
  assumes "check_change fmt ts etype name d old new thr = Inr evs" "e \<in> set evs"
  shows "event_type e = etype \<and> old_value e = old \<and>
         classify_severity old new thr = Inr (severity e)"
  using check_change_cases[of fmt ts etype name d old new thr] assms
  by (auto split: if_splits)

lemma check_regime_type: "e \<in> set (check_regime ts r1 r2) \<Longrightarrow> event_type e = ''REGIME_CHANGE''"
  by (auto simp: check_regime_def split: if_splits)

lemma emitted_append [simp]: "emitted ty (xs @ ys) \<longleftrightarrow> emitted ty xs \<or> emitted ty ys"
  by (auto simp: emitted_def)

lemma changed_NaN [simp]: "changed NaN new thr = False" "changed old NaN thr = False"
proof -
  show "changed NaN new thr = False"
    by (simp add: changed_def significant_change_def py_ge_def)
  show "changed old NaN thr = False"
    by (cases old) (simp_all add: changed_def significant_change_def py_ge_def py_gt_def)
qed

lemma changed_Fin:
  "changed (Fin a) (Fin b) thr \<longleftrightarrow> float_rule a b thr"
proof (cases "\<bar>a\<bar> < 1 / 10 ^ 10")
  case True
  then show ?thesis
    by (simp add: changed_def significant_change_def float_rule_def py_gt_def)
next
  case False
  then have a: "a \<noteq> 0" by auto
  show ?thesis
    using False a
    by (auto simp: changed_def significant_change_def float_rule_def py_ge_def fl_def
          inf_of_def Let_def)
qed

text \<open>A warm call returns the events of the five blocks, in their order.\<close>

lemma detect_events_warm:
  assumes "previous_metrics self = Some prev"
  shows "\<exists>out e1 e2 e3 e4.
     detect_events fmt thresholds now self cur = Inr out \<and>
     check_change fmt (dict_get (k_timestamp cur) now) ''DELTA_CHANGE'' ''Delta'' 4
       (dict_get (k_delta prev) (Fin 0)) (dict_get (k_delta cur) (Fin 0))
       (delta_change_threshold thresholds) = Inr e1 \<and>
     check_change fmt (dict_get (k_timestamp cur) now) ''GAMMA_CHANGE'' ''Gamma'' 6
       (dict_get (k_gamma prev) (Fin 0)) (dict_get (k_gamma cur) (Fin 0))
       (gamma_change_threshold thresholds) = Inr e2 \<and>
     check_change fmt (dict_get (k_timestamp cur) now) ''THETA_CHANGE'' ''Theta'' 4
       (dict_get (k_theta prev) (Fin 0)) (dict_get (k_theta cur) (Fin 0))
       (theta_change_threshold thresholds) = Inr e3 \<and>
     check_change fmt (dict_get (k_timestamp cur) now) ''VEGA_CHANGE'' ''Vega'' 4
       (dict_get (k_vega prev) (Fin 0)) (dict_get (k_vega cur) (Fin 0))
       (vega_change_threshold thresholds) = Inr e4 \<and>
     returned out = e1 @ e2 @ e3 @ e4
        @ check_regime (dict_get (k_timestamp cur) now)
            (dict_get (k_risk_regime prev) ''UNKNOWN'')
            (dict_get (k_risk_regime cur) ''UNKNOWN'') \<and>
     previous_metrics (detector out) = Some cur \<and>
     logged out = []"
proof -
  obtain e1 where e1: "check_change fmt (dict_get (k_timestamp cur) now) ''DELTA_CHANGE'' ''Delta'' 4
       (dict_get (k_delta prev) (Fin 0)) (dict_get (k_delta cur) (Fin 0))
       (delta_change_threshold thresholds) = Inr e1"
    using check_change_cases by blast
  obtain e2 where e2: "check_change fmt (dict_get (k_timestamp cur) now) ''GAMMA_CHANGE'' ''Gamma'' 6
       (dict_get (k_gamma prev) (Fin 0)) (dict_get (k_gamma cur) (Fin 0))
       (gamma_change_threshold thresholds) = Inr e2"
    using check_change_cases by blast
  obtain e3 where e3: "check_change fmt (dict_get (k_timestamp cur) now) ''THETA_CHANGE'' ''Theta'' 4
       (dict_get (k_theta prev) (Fin 0)) (dict_get (k_theta cur) (Fin 0))
       (theta_change_threshold thresholds) = Inr e3"
    using check_change_cases by blast
  obtain e4 where e4: "check_change fmt (dict_get (k_timestamp cur) now) ''VEGA_CHANGE'' ''Vega'' 4
       (dict_get (k_vega prev) (Fin 0)) (dict_get (k_vega cur) (Fin 0))
       (vega_change_threshold thresholds) = Inr e4"
    using check_change_cases by blast
  show ?thesis
    using assms e1 e2 e3 e4 by (simp add: detect_events_def Let_def)
qed

lemma emitted_regime_block:
  "ty \<noteq> ''REGIME_CHANGE'' \<Longrightarrow> \<not> emitted ty (check_regime ts r1 r2)"
  by (auto simp: emitted_def dest: check_regime_type)


section \<open>Cold start\<close>

text \<open>
  C6. The first call of \<open>detect_events\<close> on a freshly constructed detector returns no
  event, whatever the snapshot is, and stores the snapshot as the previous one: the
  detector is warm afterwards. Nothing else of the detector changes.
\<close>

theorem cold_start_no_events:
  "detect_events fmt thresholds now RiskEventDetector_init s =
     Inr \<lparr> returned = [],
           detector = RiskEventDetector_init\<lparr>previous_metrics := Some s\<rparr>,
           logged = [] \<rparr>"
  by (simp add: detect_events_def RiskEventDetector_init_def)


lemma settings_simps [simp]:
  "delta_change_threshold settings = 5/100" "gamma_change_threshold settings = 10/100"
  "theta_change_threshold settings = 5/100" "vega_change_threshold settings = 10/100"
  "stable_max settings = 30" "sensitive_max settings = 65"
  "shock_scenarios settings = [1/100, 5/100, - (1/100), - (5/100)]"
  by (simp_all add: settings_def default_thresholds_def RiskThresholds_init_def)

lemma snapshot_simps [simp]:
  "k_timestamp (snapshot ts d g t v regime) = Some ts"
  "k_delta (snapshot ts d g t v regime) = Some d"
  "k_gamma (snapshot ts d g t v regime) = Some g"
  "k_theta (snapshot ts d g t v regime) = Some t"
  "k_vega (snapshot ts d g t v regime) = Some v"
  "k_risk_regime (snapshot ts d g t v regime) = Some regime"
  by (simp_all add: snapshot_def)

lemma warm_detector_simps [simp]:
  "previous_metrics (warm_detector prev) = Some prev"
  "event_history (warm_detector prev) = []"
  "max_history_size (warm_detector prev) = 100"
  by (simp_all add: warm_detector_def RiskEventDetector_init_def)

section \<open>Threshold rule of the detector\<close>

lemma float_settings_simps [simp]:
  "delta_change_threshold float_settings = float_0_05"
  "gamma_change_threshold float_settings = float_0_10"
  "theta_change_threshold float_settings = float_0_05"
  "vega_change_threshold float_settings = float_0_10"
  "stable_max float_settings = 30" "sensitive_max float_settings = 65"
  by (simp_all add: float_settings_def RiskThresholds_init_def)

text \<open>Whether a warm call returns the event of a field is the decision on that field.\<close>

lemma detect_events_emitted:
  assumes "previous_metrics self = Some prev"
  shows "\<exists>out. detect_events fmt thresholds now self cur = Inr out \<and>
     logged out = [] \<and>
     previous_metrics (detector out) = Some cur \<and>
     (emitted ''DELTA_CHANGE'' (returned out) \<longleftrightarrow>
        changed (dict_get (k_delta prev) (Fin 0)) (dict_get (k_delta cur) (Fin 0))
          (delta_change_threshold thresholds)) \<and>
     (emitted ''GAMMA_CHANGE'' (returned out) \<longleftrightarrow>
        changed (dict_get (k_gamma prev) (Fin 0)) (dict_get (k_gamma cur) (Fin 0))
          (gamma_change_threshold thresholds)) \<and>
     (emitted ''THETA_CHANGE'' (returned out) \<longleftrightarrow>
        changed (dict_get (k_theta prev) (Fin 0)) (dict_get (k_theta cur) (Fin 0))
          (theta_change_threshold thresholds)) \<and>
     (emitted ''VEGA_CHANGE'' (returned out) \<longleftrightarrow>
        changed (dict_get (k_vega prev) (Fin 0)) (dict_get (k_vega cur) (Fin 0))
          (vega_change_threshold thresholds))"
proof -
  from detect_events_warm[OF assms(1), of fmt thresholds now cur]
  obtain out e1 e2 e3 e4 where
    out: "detect_events fmt thresholds now self cur = Inr out"
    and b1: "check_change fmt (dict_get (k_timestamp cur) now) ''DELTA_CHANGE'' ''Delta'' 4
       (dict_get (k_delta prev) (Fin 0)) (dict_get (k_delta cur) (Fin 0))
       (delta_change_threshold thresholds) = Inr e1"
    and b2: "check_change fmt (dict_get (k_timestamp cur) now) ''GAMMA_CHANGE'' ''Gamma'' 6
       (dict_get (k_gamma prev) (Fin 0)) (dict_get (k_gamma cur) (Fin 0))
       (gamma_change_threshold thresholds) = Inr e2"
    and b3: "check_change fmt (dict_get (k_timestamp cur) now) ''THETA_CHANGE'' ''Theta'' 4
       (dict_get (k_theta prev) (Fin 0)) (dict_get (k_theta cur) (Fin 0))
       (theta_change_threshold thresholds) = Inr e3"
    and b4: "check_change fmt (dict_get (k_timestamp cur) now) ''VEGA_CHANGE'' ''Vega'' 4
       (dict_get (k_vega prev) (Fin 0)) (dict_get (k_vega cur) (Fin 0))
       (vega_change_threshold thresholds) = Inr e4"
    and ret: "returned out = e1 @ e2 @ e3 @ e4
        @ check_regime (dict_get (k_timestamp cur) now)
            (dict_get (k_risk_regime prev) ''UNKNOWN'')
            (dict_get (k_risk_regime cur) ''UNKNOWN'')"
    and rest: "previous_metrics (detector out) = Some cur" "logged out = []"
    by blast
  note em = check_change_emitted[OF b1] check_change_emitted[OF b2]
    check_change_emitted[OF b3] check_change_emitted[OF b4] emitted_regime_block
  have "emitted ''DELTA_CHANGE'' (returned out) \<longleftrightarrow>
        changed (dict_get (k_delta prev) (Fin 0)) (dict_get (k_delta cur) (Fin 0))
          (delta_change_threshold thresholds)"
    by (simp add: ret em)
  moreover have "emitted ''GAMMA_CHANGE'' (returned out) \<longleftrightarrow>
        changed (dict_get (k_gamma prev) (Fin 0)) (dict_get (k_gamma cur) (Fin 0))
          (gamma_change_threshold thresholds)"
    by (simp add: ret em)
  moreover have "emitted ''THETA_CHANGE'' (returned out) \<longleftrightarrow>
        changed (dict_get (k_theta prev) (Fin 0)) (dict_get (k_theta cur) (Fin 0))
          (theta_change_threshold thresholds)"
    by (simp add: ret em)
  moreover have "emitted ''VEGA_CHANGE'' (returned out) \<longleftrightarrow>
        changed (dict_get (k_vega prev) (Fin 0)) (dict_get (k_vega cur) (Fin 0))
          (vega_change_threshold thresholds)"
    by (simp add: ret em)
  ultimately show ?thesis using out rest by blast
qed

text \<open>
  Two steps of float arithmetic. From \<open>0.5\<close> to the float of \<open>0.525\<close>: the difference is
  \<open>0.025000000000000022\<close> and the relative change \<open>0.050000000000000044\<close>. From the float
  \<open>0.6619315102026069\<close> to the float \<open>0.6950280857127372\<close>: the difference is
  \<open>0.033096575510130344\<close>, and its quotient by the old value rounds to the float of
  \<open>0.05\<close>.
\<close>

lemma float_step_a:
  "round_double (d64 4728779608739021 53 - d64 4503599627370496 53) = d64 7205759403792800 58"
  "round_double (d64 7205759403792800 58 / d64 4503599627370496 53) = d64 7205759403792800 57"
  by (rule round_double_eqI; simp add: d64_def)+

lemma float_step_b:
  "round_double (d64 6260256455655825 53 - d64 5962149005386500 53) = d64 4769719204309200 57"
  "round_double (d64 4769719204309200 57 / d64 5962149005386500 53) = d64 7205759403792794 57"
  by (rule round_double_eqI; simp add: d64_def)+

lemma float_rule_a:
  "float_rule (d64 4503599627370496 53) (d64 4728779608739021 53) float_0_05"
  unfolding float_rule_def Let_def float_step_a
  by (simp add: d64_def float_0_05_def)

lemma float_rule_b:
  "float_rule (d64 5962149005386500 53) (d64 6260256455655825 53) float_0_05"
  unfolding float_rule_def Let_def float_step_b
  by (simp add: d64_def float_0_05_def)

lemma float_rule_same: "1 / 10 ^ 10 \<le> \<bar>x\<bar> \<Longrightarrow> 0 < thr \<Longrightarrow> \<not> float_rule x x thr"
  by (simp add: float_rule_def Let_def not_less)

text \<open>
  C1, as the code has it. On a warm call, and for each of the four fields whose old and
  new values are numbers, a \<open>DELTA_CHANGE\<close>, \<open>GAMMA_CHANGE\<close>, \<open>THETA_CHANGE\<close> or
  \<open>VEGA_CHANGE\<close> event is returned exactly when the field satisfies the threshold rule
  in float arithmetic: with an old value of magnitude at least \<open>1e-10\<close>, the rounded
  quotient of the rounded difference by the old value is at least the field's threshold
  in magnitude (the boundary included); with a smaller old value, the magnitude of the
  new value exceeds the threshold. The call never raises.
\<close>

theorem field_change_iff_float_rule:
  assumes "previous_metrics self = Some prev"
  shows "\<exists>out. detect_events fmt thresholds now self cur = Inr out \<and>
     (\<forall>a b. dict_get (k_delta prev) (Fin 0) = Fin a \<and> dict_get (k_delta cur) (Fin 0) = Fin b
        \<longrightarrow> (emitted ''DELTA_CHANGE'' (returned out)
               \<longleftrightarrow> float_rule a b (delta_change_threshold thresholds))) \<and>
     (\<forall>a b. dict_get (k_gamma prev) (Fin 0) = Fin a \<and> dict_get (k_gamma cur) (Fin 0) = Fin b
        \<longrightarrow> (emitted ''GAMMA_CHANGE'' (returned out)
               \<longleftrightarrow> float_rule a b (gamma_change_threshold thresholds))) \<and>
     (\<forall>a b. dict_get (k_theta prev) (Fin 0) = Fin a \<and> dict_get (k_theta cur) (Fin 0) = Fin b
        \<longrightarrow> (emitted ''THETA_CHANGE'' (returned out)
               \<longleftrightarrow> float_rule a b (theta_change_threshold thresholds))) \<and>
     (\<forall>a b. dict_get (k_vega prev) (Fin 0) = Fin a \<and> dict_get (k_vega cur) (Fin 0) = Fin b
        \<longrightarrow> (emitted ''VEGA_CHANGE'' (returned out)
               \<longleftrightarrow> float_rule a b (vega_change_threshold thresholds)))"
proof -
  from detect_events_emitted[OF assms, of fmt thresholds now cur]
  obtain out where out: "detect_events fmt thresholds now self cur = Inr out"
    and d: "emitted ''DELTA_CHANGE'' (returned out) \<longleftrightarrow>
        changed (dict_get (k_delta prev) (Fin 0)) (dict_get (k_delta cur) (Fin 0))
          (delta_change_threshold thresholds)"
    and g: "emitted ''GAMMA_CHANGE'' (returned out) \<longleftrightarrow>
        changed (dict_get (k_gamma prev) (Fin 0)) (dict_get (k_gamma cur) (Fin 0))
          (gamma_change_threshold thresholds)"
    and t: "emitted ''THETA_CHANGE'' (returned out) \<longleftrightarrow>
        changed (dict_get (k_theta prev) (Fin 0)) (dict_get (k_theta cur) (Fin 0))
          (theta_change_threshold thresholds)"
    and v: "emitted ''VEGA_CHANGE'' (returned out) \<longleftrightarrow>
        changed (dict_get (k_vega prev) (Fin 0)) (dict_get (k_vega cur) (Fin 0))
          (vega_change_threshold thresholds)"
    by blast
  have "\<forall>a b. dict_get (k_delta prev) (Fin 0) = Fin a \<and> dict_get (k_delta cur) (Fin 0) = Fin b
        \<longrightarrow> (emitted ''DELTA_CHANGE'' (returned out)
               \<longleftrightarrow> float_rule a b (delta_change_threshold thresholds))"
    using d by (simp add: changed_Fin)
  moreover have "\<forall>a b. dict_get (k_gamma prev) (Fin 0) = Fin a \<and> dict_get (k_gamma cur) (Fin 0) = Fin b
        \<longrightarrow> (emitted ''GAMMA_CHANGE'' (returned out)
               \<longleftrightarrow> float_rule a b (gamma_change_threshold thresholds))"
    using g by (simp add: changed_Fin)
  moreover have "\<forall>a b. dict_get (k_theta prev) (Fin 0) = Fin a \<and> dict_get (k_theta cur) (Fin 0) = Fin b
        \<longrightarrow> (emitted ''THETA_CHANGE'' (returned out)
               \<longleftrightarrow> float_rule a b (theta_change_threshold thresholds))"
    using t by (simp add: changed_Fin)
  moreover have "\<forall>a b. dict_get (k_vega prev) (Fin 0) = Fin a \<and> dict_get (k_vega cur) (Fin 0) = Fin b
        \<longrightarrow> (emitted ''VEGA_CHANGE'' (returned out)
               \<longleftrightarrow> float_rule a b (vega_change_threshold thresholds))"
    using v by (simp add: changed_Fin)
  ultimately show ?thesis using out by blast
qed

text \<open>
  With the default thresholds, from a delta of \<open>0.5\<close> to a delta of \<open>0.525\<close> and with the
  other fields unchanged (the gamma is the float of \<open>0.002\<close>): the delta event is
  returned, the gamma event is not.
\<close>

theorem field_change_iff_float_rule_witness:
  "emitted ''DELTA_CHANGE'' (returned (projr (detect_events plain_fmt float_settings ''now''
       (warm_detector (snapshot ''t0'' (Fin (d64 4503599627370496 53))
          (Fin (d64 4611686018427388 61)) (Fin (-3)) (Fin 4) ''STABLE''))
       (snapshot ''t1'' (Fin (d64 4728779608739021 53))
          (Fin (d64 4611686018427388 61)) (Fin (-3)) (Fin 4) ''STABLE''))))
   \<and> \<not> emitted ''GAMMA_CHANGE'' (returned (projr (detect_events plain_fmt float_settings ''now''
       (warm_detector (snapshot ''t0'' (Fin (d64 4503599627370496 53))
          (Fin (d64 4611686018427388 61)) (Fin (-3)) (Fin 4) ''STABLE''))
       (snapshot ''t1'' (Fin (d64 4728779608739021 53))
          (Fin (d64 4611686018427388 61)) (Fin (-3)) (Fin 4) ''STABLE''))))"
proof -
  let ?s0 = "snapshot ''t0'' (Fin (d64 4503599627370496 53))
          (Fin (d64 4611686018427388 61)) (Fin (-3)) (Fin 4) ''STABLE''"
  let ?s1 = "snapshot ''t1'' (Fin (d64 4728779608739021 53))
          (Fin (d64 4611686018427388 61)) (Fin (-3)) (Fin 4) ''STABLE''"
  obtain out where
    "detect_events plain_fmt float_settings ''now'' (warm_detector ?s0) ?s1 = Inr out"
    "emitted ''DELTA_CHANGE'' (returned out)
       \<longleftrightarrow> float_rule (d64 4503599627370496 53) (d64 4728779608739021 53) float_0_05"
    "emitted ''GAMMA_CHANGE'' (returned out)
       \<longleftrightarrow> float_rule (d64 4611686018427388 61) (d64 4611686018427388 61) float_0_10"
    using field_change_iff_float_rule
      [of "warm_detector ?s0" ?s0 plain_fmt float_settings "''now''" ?s1]
    by auto
  moreover have "(0::real) < float_0_10" "1 / 10 ^ 10 \<le> \<bar>d64 4611686018427388 61\<bar>"
    by (simp_all add: float_0_10_def d64_def)
  ultimately show ?thesis by (simp add: float_rule_a float_rule_same)
qed

text \<open>
  C1 as stated fails: on floats the quotient is rounded. From a delta of
  \<open>0.6619315102026069\<close> to a delta of \<open>0.6950280857127372\<close> the relative change is below
  the float of the threshold \<open>0.05\<close>, and yet the event is returned, because the quotient
  the code computes rounds to that float.
\<close>

theorem rounded_change_reaches_threshold:
  "emitted ''DELTA_CHANGE'' (returned (projr (detect_events plain_fmt float_settings ''now''
       (warm_detector (snapshot ''t0'' (Fin (d64 5962149005386500 53))
          (Fin 1) (Fin 1) (Fin 1) ''STABLE''))
       (snapshot ''t1'' (Fin (d64 6260256455655825 53))
          (Fin 1) (Fin 1) (Fin 1) ''STABLE''))))
   \<and> \<not> threshold_rule (d64 5962149005386500 53) (d64 6260256455655825 53) float_0_05"
proof -
  let ?s0 = "snapshot ''t0'' (Fin (d64 5962149005386500 53)) (Fin 1) (Fin 1) (Fin 1) ''STABLE''"
  let ?s1 = "snapshot ''t1'' (Fin (d64 6260256455655825 53)) (Fin 1) (Fin 1) (Fin 1) ''STABLE''"
  obtain out where
    "detect_events plain_fmt float_settings ''now'' (warm_detector ?s0) ?s1 = Inr out"
    "emitted ''DELTA_CHANGE'' (returned out)
       \<longleftrightarrow> changed (Fin (d64 5962149005386500 53)) (Fin (d64 6260256455655825 53)) float_0_05"
    using detect_events_emitted[of "warm_detector ?s0" ?s0 plain_fmt float_settings "''now''" ?s1]
    by auto
  moreover have
    "\<not> threshold_rule (d64 5962149005386500 53) (d64 6260256455655825 53) float_0_05"
    by (simp add: threshold_rule_def d64_def float_0_05_def)
  ultimately show ?thesis by (simp add: changed_Fin float_rule_b)
qed


section \<open>Severity for a negligible old value\<close>

text \<open>
  C10. Every \<open>DELTA_CHANGE\<close>, \<open>GAMMA_CHANGE\<close>, \<open>THETA_CHANGE\<close> or \<open>VEGA_CHANGE\<close> event of
  a warm call whose old value has a magnitude below \<open>1e-10\<close> has severity \<open>MEDIUM\<close>,
  however large the new value is.
\<close>

theorem negligible_old_value_is_medium:
  assumes "previous_metrics self = Some prev"
    and "detect_events fmt thresholds now self cur = Inr out"
    and "e \<in> set (returned out)"
    and "event_type e = ''DELTA_CHANGE'' \<or> event_type e = ''GAMMA_CHANGE''
         \<or> event_type e = ''THETA_CHANGE'' \<or> event_type e = ''VEGA_CHANGE''"
    and "old_value e = Fin a" and "\<bar>a\<bar> < 1 / 10 ^ 10"
  shows "severity e = ''MEDIUM''"
proof -
  from detect_events_warm[OF assms(1), of fmt thresholds now cur] assms(2)
  obtain e1 e2 e3 e4 where
    b1: "check_change fmt (dict_get (k_timestamp cur) now) ''DELTA_CHANGE'' ''Delta'' 4
       (dict_get (k_delta prev) (Fin 0)) (dict_get (k_delta cur) (Fin 0))
       (delta_change_threshold thresholds) = Inr e1"
    and b2: "check_change fmt (dict_get (k_timestamp cur) now) ''GAMMA_CHANGE'' ''Gamma'' 6
       (dict_get (k_gamma prev) (Fin 0)) (dict_get (k_gamma cur) (Fin 0))
       (gamma_change_threshold thresholds) = Inr e2"
    and b3: "check_change fmt (dict_get (k_timestamp cur) now) ''THETA_CHANGE'' ''Theta'' 4
       (dict_get (k_theta prev) (Fin 0)) (dict_get (k_theta cur) (Fin 0))
       (theta_change_threshold thresholds) = Inr e3"
    and b4: "check_change fmt (dict_get (k_timestamp cur) now) ''VEGA_CHANGE'' ''Vega'' 4
       (dict_get (k_vega prev) (Fin 0)) (dict_get (k_vega cur) (Fin 0))
       (vega_change_threshold thresholds) = Inr e4"
    and ret: "returned out = e1 @ e2 @ e3 @ e4
        @ check_regime (dict_get (k_timestamp cur) now)
            (dict_get (k_risk_regime prev) ''UNKNOWN'')
            (dict_get (k_risk_regime cur) ''UNKNOWN'')"
    by auto
  from assms(3,4) ret have "e \<in> set e1 \<or> e \<in> set e2 \<or> e \<in> set e3 \<or> e \<in> set e4"
    by (auto dest: check_regime_type)
  then obtain old new thr where "old_value e = old"
      "classify_severity old new thr = Inr (severity e)"
    using check_change_severity[OF b1] check_change_severity[OF b2]
      check_change_severity[OF b3] check_change_severity[OF b4] by blast
  with assms(5,6) show ?thesis
    by (simp add: classify_severity_negligible)
qed

text \<open>
  From a delta of \<open>0\<close> to a delta of \<open>5\<close>, far beyond three times the threshold, the event
  is \<open>MEDIUM\<close>.
\<close>

theorem negligible_old_value_is_medium_witness:
  "detect_events plain_fmt settings ''now''
     (warm_detector (snapshot ''t0'' (Fin 0) (Fin 1) (Fin 1) (Fin 1) ''STABLE''))
     (snapshot ''t1'' (Fin 5) (Fin 1) (Fin 1) (Fin 1) ''STABLE'')
   = Inr \<lparr> returned =
             [\<lparr> timestamp = ''t1'', event_type = ''DELTA_CHANGE'', severity = ''MEDIUM'',
                description = ''Delta changed from number to number'',
                old_value = Fin 0, new_value = Fin 5, change_pct = Fin 100 \<rparr>],
           detector =
             \<lparr> previous_metrics = Some (snapshot ''t1'' (Fin 5) (Fin 1) (Fin 1) (Fin 1) ''STABLE''),
               event_history =
                 [\<lparr> timestamp = ''t1'', event_type = ''DELTA_CHANGE'', severity = ''MEDIUM'',
                    description = ''Delta changed from number to number'',
                    old_value = Fin 0, new_value = Fin 5, change_pct = Fin 100 \<rparr>],
               max_history_size = 100 \<rparr>,
           logged = [] \<rparr>"
proof -
  let ?s0 = "snapshot ''t0'' (Fin 0) (Fin 1) (Fin 1) (Fin 1) ''STABLE''"
  let ?s1 = "snapshot ''t1'' (Fin 5) (Fin 1) (Fin 1) (Fin 1) ''STABLE''"
  obtain sev where run: "detect_events plain_fmt settings ''now'' (warm_detector ?s0) ?s1
   = Inr \<lparr> returned =
             [\<lparr> timestamp = ''t1'', event_type = ''DELTA_CHANGE'', severity = sev,
                description = ''Delta changed from number to number'',
                old_value = Fin 0, new_value = Fin 5, change_pct = Fin 100 \<rparr>],
           detector =
             \<lparr> previous_metrics = Some ?s1,
               event_history =
                 [\<lparr> timestamp = ''t1'', event_type = ''DELTA_CHANGE'', severity = sev,
                    description = ''Delta changed from number to number'',
                    old_value = Fin 0, new_value = Fin 5, change_pct = Fin 100 \<rparr>],
               max_history_size = 100 \<rparr>,
           logged = [] \<rparr>"
    by (simp add: detect_events_def check_change_def significant_change_def
        classify_severity_def calc_change_pct_def check_regime_def py_gt_def py_ge_def
        plain_fmt_def warm_detector_def RiskEventDetector_init_def Let_def)
  have "sev = ''MEDIUM''"
    using negligible_old_value_is_medium[OF _ run, of ?s0
        "\<lparr> timestamp = ''t1'', event_type = ''DELTA_CHANGE'', severity = sev,
                description = ''Delta changed from number to number'',
                old_value = Fin 0, new_value = Fin 5, change_pct = Fin 100 \<rparr>" 0]
    by simp
  with run show ?thesis by simp
qed


section \<open>Not-a-number fields\<close>

lemma round_double_one [simp]: "round_double 1 = 1"
proof -
  have "round_double 1 = d64 (2 ^ 52) 52"
    by (rule round_double_eqI) simp_all
  then show ?thesis by (simp add: d64_def)
qed

text \<open>
  C9, as the code has it. A warm call never raises, whatever the fields hold. A field that
  is \<open>NaN\<close> in the old or in the new snapshot yields no event of its type; every field,
  the others included, yields its event exactly when \<open>_significant_change\<close> returns
  \<open>True\<close> for it; the new snapshot becomes the previous one, and nothing is written to a
  log.
\<close>

theorem nan_field_skipped_without_log:
  assumes "previous_metrics self = Some prev"
  shows "\<exists>out. detect_events fmt thresholds now self cur = Inr out \<and>
     logged out = [] \<and>
     previous_metrics (detector out) = Some cur \<and>
     (dict_get (k_delta prev) (Fin 0) = NaN \<or> dict_get (k_delta cur) (Fin 0) = NaN
        \<longrightarrow> \<not> emitted ''DELTA_CHANGE'' (returned out)) \<and>
     (dict_get (k_gamma prev) (Fin 0) = NaN \<or> dict_get (k_gamma cur) (Fin 0) = NaN
        \<longrightarrow> \<not> emitted ''GAMMA_CHANGE'' (returned out)) \<and>
     (dict_get (k_theta prev) (Fin 0) = NaN \<or> dict_get (k_theta cur) (Fin 0) = NaN
        \<longrightarrow> \<not> emitted ''THETA_CHANGE'' (returned out)) \<and>
     (dict_get (k_vega prev) (Fin 0) = NaN \<or> dict_get (k_vega cur) (Fin 0) = NaN
        \<longrightarrow> \<not> emitted ''VEGA_CHANGE'' (returned out)) \<and>
     (emitted ''DELTA_CHANGE'' (returned out) \<longleftrightarrow>
        significant_change (dict_get (k_delta prev) (Fin 0)) (dict_get (k_delta cur) (Fin 0))
          (delta_change_threshold thresholds) = Inr True) \<and>
     (emitted ''GAMMA_CHANGE'' (returned out) \<longleftrightarrow>
        significant_change (dict_get (k_gamma prev) (Fin 0)) (dict_get (k_gamma cur) (Fin 0))
          (gamma_change_threshold thresholds) = Inr True) \<and>
     (emitted ''THETA_CHANGE'' (returned out) \<longleftrightarrow>
        significant_change (dict_get (k_theta prev) (Fin 0)) (dict_get (k_theta cur) (Fin 0))
          (theta_change_threshold thresholds) = Inr True) \<and>
     (emitted ''VEGA_CHANGE'' (returned out) \<longleftrightarrow>
        significant_change (dict_get (k_vega prev) (Fin 0)) (dict_get (k_vega cur) (Fin 0))
          (vega_change_threshold thresholds) = Inr True)"
proof -
  from detect_events_emitted[OF assms, of fmt thresholds now cur]
  obtain out where out: "detect_events fmt thresholds now self cur = Inr out"
    and rest: "logged out = []" "previous_metrics (detector out) = Some cur"
    and d: "emitted ''DELTA_CHANGE'' (returned out) \<longleftrightarrow>
        changed (dict_get (k_delta prev) (Fin 0)) (dict_get (k_delta cur) (Fin 0))
          (delta_change_threshold thresholds)"
    and g: "emitted ''GAMMA_CHANGE'' (returned out) \<longleftrightarrow>
        changed (dict_get (k_gamma prev) (Fin 0)) (dict_get (k_gamma cur) (Fin 0))
          (gamma_change_threshold thresholds)"
    and t: "emitted ''THETA_CHANGE'' (returned out) \<longleftrightarrow>
        changed (dict_get (k_theta prev) (Fin 0)) (dict_get (k_theta cur) (Fin 0))
          (theta_change_threshold thresholds)"
    and v: "emitted ''VEGA_CHANGE'' (returned out) \<longleftrightarrow>
        changed (dict_get (k_vega prev) (Fin 0)) (dict_get (k_vega cur) (Fin 0))
          (vega_change_threshold thresholds)"
    by blast
  have "dict_get (k_delta prev) (Fin 0) = NaN \<or> dict_get (k_delta cur) (Fin 0) = NaN
        \<longrightarrow> \<not> emitted ''DELTA_CHANGE'' (returned out)"
    using d by auto
  moreover have "dict_get (k_gamma prev) (Fin 0) = NaN \<or> dict_get (k_gamma cur) (Fin 0) = NaN
        \<longrightarrow> \<not> emitted ''GAMMA_CHANGE'' (returned out)"
    using g by auto
  moreover have "dict_get (k_theta prev) (Fin 0) = NaN \<or> dict_get (k_theta cur) (Fin 0) = NaN
        \<longrightarrow> \<not> emitted ''THETA_CHANGE'' (returned out)"
    using t by auto
  moreover have "dict_get (k_vega prev) (Fin 0) = NaN \<or> dict_get (k_vega cur) (Fin 0) = NaN
        \<longrightarrow> \<not> emitted ''VEGA_CHANGE'' (returned out)"
    using v by auto
  ultimately show ?thesis
    using out rest d g t v unfolding changed_def by blast
qed

text \<open>
  A new delta that is \<open>NaN\<close>, together with a gamma that doubles: the call returns the
  gamma event alone.
\<close>

theorem nan_field_skipped_without_log_witness:
  "\<not> emitted ''DELTA_CHANGE'' (returned (projr (detect_events plain_fmt settings ''now''
       (warm_detector (snapshot ''t0'' (Fin (40/100)) (Fin 1) (Fin 1) (Fin 1) ''STABLE''))
       (snapshot ''t1'' NaN (Fin 2) (Fin 1) (Fin 1) ''STABLE''))))
   \<and> emitted ''GAMMA_CHANGE'' (returned (projr (detect_events plain_fmt settings ''now''
       (warm_detector (snapshot ''t0'' (Fin (40/100)) (Fin 1) (Fin 1) (Fin 1) ''STABLE''))
       (snapshot ''t1'' NaN (Fin 2) (Fin 1) (Fin 1) ''STABLE''))))
   \<and> logged (projr (detect_events plain_fmt settings ''now''
       (warm_detector (snapshot ''t0'' (Fin (40/100)) (Fin 1) (Fin 1) (Fin 1) ''STABLE''))
       (snapshot ''t1'' NaN (Fin 2) (Fin 1) (Fin 1) ''STABLE''))) = []"
proof -
  let ?s0 = "snapshot ''t0'' (Fin (40/100)) (Fin 1) (Fin 1) (Fin 1) ''STABLE''"
  let ?s1 = "snapshot ''t1'' NaN (Fin 2) (Fin 1) (Fin 1) ''STABLE''"
  obtain out where
    "detect_events plain_fmt settings ''now'' (warm_detector ?s0) ?s1 = Inr out"
    "logged out = []"
    "\<not> emitted ''DELTA_CHANGE'' (returned out)"
    "emitted ''GAMMA_CHANGE'' (returned out)
       \<longleftrightarrow> significant_change (Fin 1) (Fin 2) (10/100) = Inr True"
    using nan_field_skipped_without_log
      [of "warm_detector ?s0" ?s0 plain_fmt settings "''now''" ?s1]
    by auto
  moreover have "fl 1 = Fin 1" using fl_small[of 1] by simp
  ultimately show ?thesis by (simp add: significant_change_def py_ge_def)
qed


text \<open>
  C9 as stated fails on the log: with the old delta \<open>NaN\<close> the call returns no event and
  stores the snapshot, and its log output is empty.
\<close>

theorem nan_anomaly_not_logged:
  "detect_events plain_fmt settings ''now''
     (warm_detector (snapshot ''t0'' NaN (Fin 1) (Fin 1) (Fin 1) ''STABLE''))
     (snapshot ''t1'' (Fin (40/100)) (Fin 1) (Fin 1) (Fin 1) ''STABLE'')
   = Inr \<lparr> returned = [],
           detector =
             \<lparr> previous_metrics =
                 Some (snapshot ''t1'' (Fin (40/100)) (Fin 1) (Fin 1) (Fin 1) ''STABLE''),
               event_history = [], max_history_size = 100 \<rparr>,
           logged = [] \<rparr>"
  by (simp add: detect_events_def check_change_def significant_change_def
      check_regime_def py_gt_def py_ge_def
      warm_detector_def RiskEventDetector_init_def Let_def)


section \<open>Risk score\<close>

lemma py_min_cap:
  assumes "0 \<le> x"
  shows "py_min (fl x) (Fin 100) = Fin (min (round_double x) 100)"
proof -
  have r: "0 \<le> round_double x" using assms by (rule round_double_nonneg)
  have big: "(100::real) < 2 ^ 1024" by simp
  show ?thesis
  proof (cases "2 ^ 1024 \<le> round_double x")
    case True
    then have "fl x = PInf" by (simp add: fl_def)
    moreover have "min (round_double x) 100 = 100" using True big by linarith
    ultimately show ?thesis by (simp add: py_min_def)
  next
    case False
    then have "fl x = Fin (round_double x)" using r by (simp add: fl_def Let_def)
    then show ?thesis by (simp add: py_min_def min_def)
  qed
qed

lemma weight_bounds:
  assumes "0 \<le> w" "w \<le> 1"
  shows "0 \<le> round_double w" "round_double w \<le> 1"
proof -
  show "0 \<le> round_double w" using assms(1) by (rule round_double_nonneg)
  have "\<bar>round_double w\<bar> \<le> 2 ^ 0" using assms by (intro round_double_le_pow2) simp
  then show "round_double w \<le> 1" by simp
qed

lemma weighted_term:
  assumes "0 \<le> w" "w \<le> 1" "0 \<le> s" "s \<le> 100"
  shows "py_mul (Fin w) (Fin s) = Fin (round_double (w * s))"
    and "\<bar>round_double (w * s)\<bar> \<le> 2 ^ 7"
proof -
  have "w * s \<le> 1 * 100" using assms by (intro mult_mono) simp_all
  moreover have "0 \<le> w * s" using assms by simp
  ultimately have b: "\<bar>w * s\<bar> \<le> 2 ^ 7" by simp
  then show "\<bar>round_double (w * s)\<bar> \<le> 2 ^ 7" by (rule round_double_le_pow2)
  have "\<bar>w * s\<bar> \<le> 2 ^ 10" using b by simp
  then show "py_mul (Fin w) (Fin s) = Fin (round_double (w * s))" by (simp add: fl_small)
qed

lemma rounded_sum:
  fixes k :: nat
  assumes "\<bar>a\<bar> \<le> 2 ^ k" "\<bar>b\<bar> \<le> 2 ^ 7" "7 \<le> k" "k \<le> 9"
  shows "py_add (Fin a) (Fin b) = Fin (round_double (a + b))"
    and "\<bar>round_double (a + b)\<bar> \<le> 2 ^ (Suc k)"
proof -
  have "(2::real) ^ 7 \<le> 2 ^ k" using assms(3) by (intro power_increasing) simp_all
  then have b: "\<bar>a + b\<bar> \<le> 2 ^ (Suc k)" using assms(1,2) by simp
  then show "\<bar>round_double (a + b)\<bar> \<le> 2 ^ (Suc k)" by (rule round_double_le_pow2)
  have "(2::real) ^ (Suc k) \<le> 2 ^ 10" using assms(4) by (intro power_increasing) simp_all
  then have "\<bar>a + b\<bar> \<le> 2 ^ 10" using b by linarith
  then show "py_add (Fin a) (Fin b) = Fin (round_double (a + b))" by (simp add: fl_small)
qed

text \<open>
  On Greeks that are numbers no product and no sum of \<open>compute_risk_score\<close> after the cap
  overflows, and the function returns the score in float arithmetic.
\<close>

lemma compute_risk_score_float:
  assumes "dict_get (k_delta greeks) (Fin 0) = Fin d"
    and "dict_get (k_gamma greeks) (Fin 0) = Fin g"
    and "dict_get (k_theta greeks) (Fin 0) = Fin t"
    and "dict_get (k_vega greeks) (Fin 0) = Fin v"
  shows "compute_risk_score greeks = Fin (score_float d g t v)"
proof -
  define cd where "cd = min (round_double (\<bar>d\<bar> * 100)) 100"
  define cg where "cg = min (round_double (\<bar>g\<bar> * 1000)) 100"
  define ct where "ct = min (round_double (\<bar>t\<bar> * 10)) 100"
  define cv where "cv = min (round_double (\<bar>v\<bar> * 5)) 100"
  define td where "td = round_double (round_double (25/100) * cd)"
  define tg where "tg = round_double (round_double (35/100) * cg)"
  define tt where "tt = round_double (round_double (20/100) * ct)"
  define tv where "tv = round_double (round_double (20/100) * cv)"
  have c: "0 \<le> cd" "cd \<le> 100" "0 \<le> cg" "cg \<le> 100" "0 \<le> ct" "ct \<le> 100"
      "0 \<le> cv" "cv \<le> 100"
    by (simp_all add: cd_def cg_def ct_def cv_def round_double_nonneg)
  have s: "py_min (py_mul (Fin \<bar>d\<bar>) (Fin 100)) (Fin 100) = Fin cd"
      "py_min (py_mul (Fin \<bar>g\<bar>) (Fin 1000)) (Fin 100) = Fin cg"
      "py_min (py_mul (Fin \<bar>t\<bar>) (Fin 10)) (Fin 100) = Fin ct"
      "py_min (py_mul (Fin \<bar>v\<bar>) (Fin 5)) (Fin 100) = Fin cv"
    by (simp_all add: py_min_cap cd_def cg_def ct_def cv_def)
  have w: "0 \<le> round_double (25/100)" "round_double (25/100) \<le> 1"
      "0 \<le> round_double (35/100)" "round_double (35/100) \<le> 1"
      "0 \<le> round_double (20/100)" "round_double (20/100) \<le> 1"
    by (simp_all add: weight_bounds)
  have m: "py_mul (Fin (round_double (25/100))) (Fin cd) = Fin td"
      "py_mul (Fin (round_double (35/100))) (Fin cg) = Fin tg"
      "py_mul (Fin (round_double (20/100))) (Fin ct) = Fin tt"
      "py_mul (Fin (round_double (20/100))) (Fin cv) = Fin tv"
    unfolding td_def tg_def tt_def tv_def using w c by (simp_all only: weighted_term(1))
  have b: "\<bar>td\<bar> \<le> 2 ^ 7" "\<bar>tg\<bar> \<le> 2 ^ 7" "\<bar>tt\<bar> \<le> 2 ^ 7" "\<bar>tv\<bar> \<le> 2 ^ 7"
    unfolding td_def tg_def tt_def tv_def using w c by (simp_all only: weighted_term(2))
  have a1: "py_add (Fin td) (Fin tg) = Fin (round_double (td + tg))"
    and b1: "\<bar>round_double (td + tg)\<bar> \<le> 2 ^ 8"
    using rounded_sum[of td 7 tg] b by simp_all
  have a2: "py_add (Fin (round_double (td + tg))) (Fin tt)
              = Fin (round_double (round_double (td + tg) + tt))"
    and b2: "\<bar>round_double (round_double (td + tg) + tt)\<bar> \<le> 2 ^ 9"
    using rounded_sum[of "round_double (td + tg)" 8 tt] b b1 by simp_all
  have a3: "py_add (Fin (round_double (round_double (td + tg) + tt))) (Fin tv)
              = Fin (round_double (round_double (round_double (td + tg) + tt) + tv))"
    using rounded_sum[of "round_double (round_double (td + tg) + tt)" 9 tv] b b2 by simp_all
  have "compute_risk_score greeks
          = np_clip (Fin (round_double (round_double (round_double (td + tg) + tt) + tv))) 0 100"
    unfolding compute_risk_score_def Let_def assms py_abs_simps s m a1 a2 a3 ..
  also have "\<dots> = Fin (score_float d g t v)"
    by (simp add: np_clip_def score_float_def clamp_def td_def tg_def tt_def tv_def
          cd_def cg_def ct_def cv_def min_def max_def)
  finally show ?thesis .
qed

lemma score_float_range: "0 \<le> score_float d g t v \<and> score_float d g t v \<le> 100"
  by (simp add: score_float_def clamp_def)

text \<open>The floats of the three weights.\<close>

lemma weight_floats:
  "round_double (25/100) = d64 4503599627370496 54"
  "round_double (35/100) = d64 6305039478318694 54"
  "round_double (20/100) = d64 7205759403792794 55"
  by (rule round_double_eqI; simp add: d64_def)+

text \<open>
  The score of a delta of \<open>0.5\<close>, a gamma of \<open>0.25\<close>, a theta of \<open>-3\<close> and a vega of \<open>30\<close>,
  step by step: the scaled values are \<open>50\<close>, \<open>250\<close>, \<open>30\<close> and \<open>150\<close>, the weighted terms
  \<open>12.5\<close>, \<open>35\<close>, \<open>6\<close> and \<open>20\<close>, and the sums \<open>47.5\<close>, \<open>53.5\<close> and \<open>73.5\<close>.
\<close>

lemma score_steps_a:
  "round_double (\<bar>d64 4503599627370496 53\<bar> * 100) = d64 7036874417766400 47"
  "round_double (\<bar>d64 4503599627370496 54\<bar> * 1000) = d64 8796093022208000 45"
  "round_double (\<bar>- 3\<bar> * 10) = d64 8444249301319680 48"
  "round_double (\<bar>30\<bar> * 5) = d64 5277655813324800 45"
  "round_double (d64 4503599627370496 54 * d64 7036874417766400 47) = d64 7036874417766400 49"
  "round_double (d64 6305039478318694 54 * 100) = d64 4925812092436480 47"
  "round_double (d64 7205759403792794 55 * d64 8444249301319680 48) = d64 6755399441055744 50"
  "round_double (d64 7205759403792794 55 * 100) = d64 5629499534213120 48"
  "round_double (d64 7036874417766400 49 + d64 4925812092436480 47) = d64 6685030696878080 47"
  "round_double (d64 6685030696878080 47 + d64 6755399441055744 50) = d64 7529455627010048 47"
  "round_double (d64 7529455627010048 47 + d64 5629499534213120 48) = d64 5172102697058304 46"
  by (rule round_double_eqI; simp add: d64_def)+

lemma score_caps_a:
  "min (d64 7036874417766400 47) 100 = d64 7036874417766400 47"
  "min (d64 8796093022208000 45) 100 = 100"
  "min (d64 8444249301319680 48) 100 = d64 8444249301319680 48"
  "min (d64 5277655813324800 45) 100 = 100"
  by (simp_all add: d64_def)

lemma score_float_a:
  "score_float (d64 4503599627370496 53) (d64 4503599627370496 54) (- 3) 30 = 147/2"
  unfolding score_float_def weight_floats score_steps_a score_caps_a
  by (simp add: clamp_def d64_def)

text \<open>
  The score of a delta of \<open>0.5\<close>, a gamma of \<open>0.032\<close>, a theta of \<open>2.1\<close> and a vega of \<open>2.1\<close>:
  the scaled values are \<open>50\<close>, \<open>32\<close>, \<open>21\<close> and \<open>10.5\<close>, the weighted terms \<open>12.5\<close>,
  \<open>11.2\<close>, \<open>4.2\<close> and \<open>2.1\<close>, and the sums \<open>23.7\<close>, \<open>27.9\<close> and \<open>30\<close>.
\<close>

lemma score_steps_b:
  "round_double (\<bar>d64 4503599627370496 53\<bar> * 100) = d64 7036874417766400 47"
  "round_double (\<bar>d64 4611686018427388 57\<bar> * 1000) = d64 4503599627370496 47"
  "round_double (\<bar>d64 4728779608739021 51\<bar> * 10) = d64 5910974510923776 48"
  "round_double (\<bar>d64 4728779608739021 51\<bar> * 5) = d64 5910974510923776 49"
  "round_double (d64 4503599627370496 54 * d64 7036874417766400 47) = d64 7036874417766400 49"
  "round_double (d64 6305039478318694 54 * d64 4503599627370496 47) = d64 6305039478318694 49"
  "round_double (d64 7205759403792794 55 * d64 5910974510923776 48) = d64 4728779608739021 50"
  "round_double (d64 7205759403792794 55 * d64 5910974510923776 49) = d64 4728779608739021 51"
  "round_double (d64 7036874417766400 49 + d64 6305039478318694 49) = d64 6670956948042547 48"
  "round_double (d64 6670956948042547 48 + d64 4728779608739021 50) = d64 7853151850227302 48"
  "round_double (d64 7853151850227302 48 + d64 4728779608739021 51) = d64 8444249301319680 48"
  by (rule round_double_eqI; simp add: d64_def)+

lemma score_caps_b:
  "min (d64 7036874417766400 47) 100 = d64 7036874417766400 47"
  "min (d64 4503599627370496 47) 100 = d64 4503599627370496 47"
  "min (d64 5910974510923776 48) 100 = d64 5910974510923776 48"
  "min (d64 5910974510923776 49) 100 = d64 5910974510923776 49"
  by (simp_all add: d64_def)

lemma score_float_b:
  "score_float (d64 4503599627370496 53) (d64 4611686018427388 57)
     (d64 4728779608739021 51) (d64 4728779608739021 51) = 30"
  unfolding score_float_def weight_floats score_steps_b score_caps_b
  by (simp add: clamp_def d64_def)

text \<open>
  C2, as the code has it. On Greeks that are numbers, \<open>compute_risk_score\<close> returns a
  number: the weighted sum of the four scaled and capped magnitudes, clamped to the range
  from 0 to 100, every weight, product and sum being rounded to a float. The result lies
  in that range. The function has no error result: it returns on every input.
\<close>

theorem compute_risk_score_is_score_float:
  assumes "dict_get (k_delta greeks) (Fin 0) = Fin d"
    and "dict_get (k_gamma greeks) (Fin 0) = Fin g"
    and "dict_get (k_theta greeks) (Fin 0) = Fin t"
    and "dict_get (k_vega greeks) (Fin 0) = Fin v"
  shows "compute_risk_score greeks = Fin (score_float d g t v)
         \<and> 0 \<le> score_float d g t v \<and> score_float d g t v \<le> 100"
  using compute_risk_score_float[OF assms] score_float_range by simp

text \<open>A delta of \<open>0.5\<close>, a gamma of \<open>0.25\<close>, a theta of \<open>-3\<close> and a vega of \<open>30\<close> score \<open>73.5\<close>.\<close>

theorem compute_risk_score_is_score_float_witness:
  "compute_risk_score (snapshot ''t0'' (Fin (d64 4503599627370496 53))
      (Fin (d64 4503599627370496 54)) (Fin (- 3)) (Fin 30) ''STABLE'')
     = Fin (147/2)"
  using compute_risk_score_is_score_float
      [of "snapshot ''t0'' (Fin (d64 4503599627370496 53))
             (Fin (d64 4503599627370496 54)) (Fin (- 3)) (Fin 30) ''STABLE''"
          "d64 4503599627370496 53" "d64 4503599627370496 54" "- 3" 30]
  by (simp add: score_float_a)

text \<open>
  C2 as stated fails: the score is computed in float arithmetic and is not always the
  exact value of the formula. For a delta of \<open>0.5\<close>, a gamma of \<open>0.032\<close>, a theta of \<open>2.1\<close>
  and a vega of \<open>2.1\<close> (the floats of these literals) \<open>compute_risk_score\<close> returns \<open>30\<close>,
  while the formula of the specification gives more than \<open>30\<close> at these Greeks: with the
  default cutoffs the first is \<open>STABLE\<close> and the second \<open>SENSITIVE\<close>.
\<close>

theorem risk_score_is_rounded:
  "compute_risk_score (snapshot ''t0'' (Fin (d64 4503599627370496 53))
      (Fin (d64 4611686018427388 57)) (Fin (d64 4728779608739021 51))
      (Fin (d64 4728779608739021 51)) ''STABLE'') = Fin 30
   \<and> 30 < score_spec (d64 4503599627370496 53) (d64 4611686018427388 57)
            (d64 4728779608739021 51) (d64 4728779608739021 51)"
proof -
  have "compute_risk_score (snapshot ''t0'' (Fin (d64 4503599627370496 53))
      (Fin (d64 4611686018427388 57)) (Fin (d64 4728779608739021 51))
      (Fin (d64 4728779608739021 51)) ''STABLE'') = Fin 30"
    using compute_risk_score_float
      [of "snapshot ''t0'' (Fin (d64 4503599627370496 53))
      (Fin (d64 4611686018427388 57)) (Fin (d64 4728779608739021 51))
      (Fin (d64 4728779608739021 51)) ''STABLE''"
          "d64 4503599627370496 53" "d64 4611686018427388 57"
          "d64 4728779608739021 51" "d64 4728779608739021 51"]
    by (simp add: score_float_b)
  moreover have "30 < score_spec (d64 4503599627370496 53) (d64 4611686018427388 57)
            (d64 4728779608739021 51) (d64 4728779608739021 51)"
    by (simp add: score_spec_def clamp_def d64_def)
  ultimately show ?thesis by simp
qed


section \<open>Regime classifier\<close>

text \<open>
  C3. For a score between 0 and 100 and cutoffs with
  \<open>0 \<le> stable_max < sensitive_max \<le> 100\<close>, \<open>determine_risk_regime\<close> returns one of the three
  regimes: \<open>STABLE\<close> exactly when the score is at most \<open>stable_max\<close>, \<open>SENSITIVE\<close> exactly when
  it is above \<open>stable_max\<close> and at most \<open>sensitive_max\<close>, \<open>FRAGILE\<close> exactly when it is above
  \<open>sensitive_max\<close>. A score equal to a cutoff gets the lower regime.
\<close>

theorem regime_total_and_boundaries:
  assumes "valid_cutoffs thresholds" and "0 \<le> s" and "s \<le> 100"
  shows "determine_risk_regime thresholds (Fin s) \<in> {''STABLE'', ''SENSITIVE'', ''FRAGILE''}
    \<and> (determine_risk_regime thresholds (Fin s) = ''STABLE'' \<longleftrightarrow> s \<le> stable_max thresholds)
    \<and> (determine_risk_regime thresholds (Fin s) = ''SENSITIVE''
         \<longleftrightarrow> stable_max thresholds < s \<and> s \<le> sensitive_max thresholds)
    \<and> (determine_risk_regime thresholds (Fin s) = ''FRAGILE'' \<longleftrightarrow> sensitive_max thresholds < s)
    \<and> determine_risk_regime thresholds (Fin (stable_max thresholds)) = ''STABLE''
    \<and> determine_risk_regime thresholds (Fin (sensitive_max thresholds)) = ''SENSITIVE''"
  using assms by (auto simp: determine_risk_regime_def valid_cutoffs_def)

text \<open>The default cutoffs 30 and 65: the scores 30 and 65 are \<open>STABLE\<close> and \<open>SENSITIVE\<close>.\<close>

theorem regime_total_and_boundaries_witness:
  "valid_cutoffs settings
   \<and> determine_risk_regime settings (Fin 30) = ''STABLE''
   \<and> determine_risk_regime settings (Fin 65) = ''SENSITIVE''
   \<and> determine_risk_regime settings (Fin 66) = ''FRAGILE''"
proof -
  have v: "valid_cutoffs settings" by (simp add: valid_cutoffs_def)
  from regime_total_and_boundaries[OF v, of 66] v show ?thesis
    using regime_total_and_boundaries[OF v, of 30] by simp
qed


section \<open>Construction of the thresholds\<close>

text \<open>
  C8 as stated fails: the construction of \<open>RiskThresholds\<close> with the cutoffs 70 and 30,
  which are not monotonic, raises nothing and returns the object.
\<close>

theorem invalid_cutoffs_accepted:
  "\<not> valid_cutoffs (projr (RiskThresholds_init (5/100) (10/100) (5/100) (10/100) 0 100 70 30 None))
   \<and> RiskThresholds_init (5/100) (10/100) (5/100) (10/100) 0 100 70 30 None =
     Inr \<lparr> delta_change_threshold = 5/100, gamma_change_threshold = 10/100,
           theta_change_threshold = 5/100, vega_change_threshold = 10/100,
           risk_score_min = 0, risk_score_max = 100,
           stable_max = 70, sensitive_max = 30,
           shock_scenarios = [1/100, 5/100, - (1/100), - (5/100)] \<rparr>"
  by (simp add: RiskThresholds_init_def valid_cutoffs_def)

text \<open>
  C8, as the code has it. Constructing the thresholds never fails, whatever the cutoffs
  are: the cutoffs are stored as given. A classification with the constructed object
  never fails either; with cutoffs that are not increasing
  (\<open>sensitive_max \<le> stable_max\<close>) it returns \<open>STABLE\<close> up to \<open>stable_max\<close> and \<open>FRAGILE\<close>
  above, and never \<open>SENSITIVE\<close>.
\<close>

theorem construction_never_validates:
  "\<exists>cfg. RiskThresholds_init dt gt tt vt smin smax stab sens shocks = Inr cfg
     \<and> stable_max cfg = stab \<and> sensitive_max cfg = sens
     \<and> (sens \<le> stab \<longrightarrow>
          determine_risk_regime cfg (Fin s) = (if s \<le> stab then ''STABLE'' else ''FRAGILE''))"
  by (auto simp: RiskThresholds_init_def determine_risk_regime_def)

theorem construction_never_validates_witness:
  "(30::real) \<le> 70
   \<and> determine_risk_regime
       (projr (RiskThresholds_init (5/100) (10/100) (5/100) (10/100) 0 100 70 30 None)) (Fin 50)
     = ''STABLE''"
proof -
  obtain cfg where
    "RiskThresholds_init (5/100) (10/100) (5/100) (10/100) 0 100 70 30 None = Inr cfg"
    "(30::real) \<le> 70 \<longrightarrow>
       determine_risk_regime cfg (Fin 50) = (if (50::real) \<le> 70 then ''STABLE'' else ''FRAGILE'')"
    using construction_never_validates[of "5/100" "10/100" "5/100" "10/100" 0 100 70 30 None 50]
    by blast
  then show ?thesis by simp
qed

section \<open>Shock scenarios\<close>











lemma default_shocks_simps [simp]:
  "shock_scenarios default_shocks = [float_0_01, float_0_05, - float_0_01, - float_0_05]"
  "shock_scenarios close_shocks = [float_0_01, float_0_015]"
  by (simp_all add: default_shocks_def close_shocks_def RiskThresholds_init_def)



end
